theory Spec2Isabelle
  imports Main "HOL-Library.Sublist"
begin

section \<open>Strings and paths\<close>

text \<open>
  Go strings are byte strings; they are modelled as \<open>string\<close> (a list of 8-bit characters).
  The functions of this section are the ones \<open>main.go\<close> calls from the packages
  \<open>strings\<close>, \<open>path\<close> and \<open>fmt\<close> of the Go standard library, written as
  the library computes them.
\<close>

definition HasSuffix :: "string \<Rightarrow> string \<Rightarrow> bool" where
  "HasSuffix s suf = suffix suf s"

definition TrimPrefix :: "string \<Rightarrow> string \<Rightarrow> string" where
  "TrimPrefix s p = (if prefix p s then drop (length p) s else s)"

definition TrimSuffix :: "string \<Rightarrow> string \<Rightarrow> string" where
  "TrimSuffix s suf = (if suffix suf s then take (length s - length suf) s else s)"

text \<open>\<open>strings.ToLower\<close> on ASCII bytes; other bytes are left as they are.\<close>

definition toLowerByte :: "char \<Rightarrow> char" where
  "toLowerByte c =
     (let n = (of_char c :: nat) in if 65 \<le> n \<and> n \<le> 90 then char_of (n + 32) else c)"

definition ToLower :: "string \<Rightarrow> string" where
  "ToLower s = map toLowerByte s"

text \<open>
  \<open>lastSlash\<close> scans from the last byte down to the first and returns the index of the
  last \<open>/\<close>, or \<open>-1\<close>. The second argument of \<open>lastSlashFrom\<close> is the number of bytes
  still to scan.
\<close>

fun lastSlashFrom :: "string \<Rightarrow> nat \<Rightarrow> int" where
  "lastSlashFrom s 0 = - 1"
| "lastSlashFrom s (Suc i) = (if s ! i = CHR ''/'' then int i else lastSlashFrom s i)"

definition lastSlash :: "string \<Rightarrow> int" where
  "lastSlash s = lastSlashFrom s (length s)"

definition Split :: "string \<Rightarrow> string \<times> string" where
  "Split path = (let i = lastSlash path in (take (nat (i + 1)) path, drop (nat (i + 1)) path))"

text \<open>
  \<open>path.Clean\<close>. The output buffer \<open>out\<close> is the list of the bytes written so far, so that
  the write index \<open>out.w\<close> of the source is \<open>length out\<close>. \<open>backtrack\<close> is the inner
  loop of the \<open>..\<close> case: it moves the write index down to the last \<open>/\<close> above
  \<open>dotdot\<close>.
\<close>

fun backtrack :: "string \<Rightarrow> nat \<Rightarrow> nat \<Rightarrow> nat" where
  "backtrack buf dotdot 0 = 0"
| "backtrack buf dotdot (Suc w) =
     (if Suc w > dotdot \<and> buf ! (Suc w) \<noteq> CHR ''/'' then backtrack buf dotdot w else Suc w)"

function clean_loop :: "string \<Rightarrow> bool \<Rightarrow> nat \<Rightarrow> string \<Rightarrow> nat \<Rightarrow> string" where
  "clean_loop path rooted r out dotdot =
     (if \<not> r < length path then out
      else if path ! r = CHR ''/'' then clean_loop path rooted (r + 1) out dotdot
      else if path ! r = CHR ''.'' \<and> (r + 1 = length path \<or> path ! (r + 1) = CHR ''/'')
        then clean_loop path rooted (r + 1) out dotdot
      else if path ! r = CHR ''.'' \<and> path ! (r + 1) = CHR ''.''
              \<and> (r + 2 = length path \<or> path ! (r + 2) = CHR ''/'')
        then (if length out > dotdot
                then clean_loop path rooted (r + 2)
                       (take (backtrack out dotdot (length out - 1)) out) dotdot
              else if \<not> rooted
                then clean_loop path rooted (r + 2)
                       ((if length out > 0 then out @ ''/'' else out) @ ''..'')
                       (length ((if length out > 0 then out @ ''/'' else out) @ ''..''))
              else clean_loop path rooted (r + 2) out dotdot)
      else clean_loop path rooted
             (r + length (takeWhile (\<lambda>c. c \<noteq> CHR ''/'') (drop r path)))
             ((if (rooted \<and> length out \<noteq> 1) \<or> (\<not> rooted \<and> length out \<noteq> 0)
                 then out @ ''/'' else out)
              @ takeWhile (\<lambda>c. c \<noteq> CHR ''/'') (drop r path))
             dotdot)"
  by pat_completeness auto

lemma takeWhile_drop_pos:
  "r < length path \<Longrightarrow> path ! r \<noteq> c \<Longrightarrow> 0 < length (takeWhile (\<lambda>x. x \<noteq> c) (drop r path))"
  by (cases "drop r path") (auto simp: hd_drop_conv_nth dest: arg_cong [where f = hd])

lemma clean_loop_element_decreases:
  assumes "r < length path" and "path ! r \<noteq> c"
  shows "length path - (r + length (takeWhile (\<lambda>x. x \<noteq> c) (drop r path))) < length path - r"
  using takeWhile_drop_pos [OF assms] assms(1) by linarith

termination clean_loop
  by (relation "measure (\<lambda>(path, rooted, r, out, dotdot). length path - r)")
     (auto intro: clean_loop_element_decreases)

declare clean_loop.simps [simp del]

definition Clean :: "string \<Rightarrow> string" where
  "Clean path =
     (if path = '''' then ''.''
      else (let rooted = (path ! 0 = CHR ''/'');
                out = clean_loop path rooted (if rooted then 1 else 0)
                        (if rooted then ''/'' else '''') (if rooted then 1 else 0)
            in if length out = 0 then ''.'' else out))"

definition Dir :: "string \<Rightarrow> string" where
  "Dir path = Clean (fst (Split path))"

fun stripSlashes :: "string \<Rightarrow> string" where
  "stripSlashes p =
     (if length p > 0 \<and> p ! (length p - 1) = CHR ''/''
        then stripSlashes (take (length p - 1) p) else p)"

declare stripSlashes.simps [simp del]

definition Base :: "string \<Rightarrow> string" where
  "Base path =
     (if path = '''' then ''.''
      else (let p = stripSlashes path;
                p' = (if lastSlash p \<ge> 0 then drop (nat (lastSlash p + 1)) p else p)
            in if p' = '''' then ''/'' else p'))"

text \<open>\<open>path.Ext\<close>: the second argument of \<open>extFrom\<close> is the number of bytes still to scan.\<close>

fun extFrom :: "string \<Rightarrow> nat \<Rightarrow> string" where
  "extFrom path 0 = ''''"
| "extFrom path (Suc i) =
     (if path ! i = CHR ''/'' then ''''
      else if path ! i = CHR ''.'' then drop i path
      else extFrom path i)"

definition Ext :: "string \<Rightarrow> string" where
  "Ext path = extFrom path (length path)"

subsection \<open>Formatting numbers\<close>

definition digitChar :: "nat \<Rightarrow> char" where
  "digitChar d = ''0123456789'' ! d"

fun natStr :: "nat \<Rightarrow> string" where
  "natStr n = (if n < 10 then [digitChar n] else natStr (n div 10) @ [digitChar (n mod 10)])"

declare natStr.simps [simp del]

text \<open>The verb \<open>%d\<close> of \<open>fmt.Sprintf\<close>.\<close>

definition sprintf_d :: "int \<Rightarrow> string" where
  "sprintf_d i = (if i < 0 then CHR ''-'' # natStr (nat (- i)) else natStr (nat i))"

text \<open>
  The conversion \<open>float64(n)\<close> of a 64-bit integer: a float64 has 53 bits of mantissa, so
  an integer below \<open>2 ^ 53\<close> in absolute value is kept as it is, and a larger one is
  rounded to the nearest multiple of \<open>2 ^ e\<close>, where \<open>e\<close> is the number of bits beyond 53,
  ties going to the even mantissa. The result is an integer and is kept as an \<open>int\<close>.
\<close>

function excessBits :: "int \<Rightarrow> nat" where
  "excessBits m = (if m < 2 ^ 53 then 0 else Suc (excessBits (m div 2)))"
  by pat_completeness auto
termination
  by (relation "measure nat") auto

declare excessBits.simps [simp del]

definition float64 :: "int \<Rightarrow> int" where
  "float64 n =
     (let m = \<bar>n\<bar>; e = excessBits m; q = m div 2 ^ e; r = m mod 2 ^ e
      in sgn n * ((if 2 * r > 2 ^ e \<or> (2 * r = 2 ^ e \<and> odd q) then q + 1 else q) * 2 ^ e))"

text \<open>
  \<open>roundTenths a b\<close> is the quotient \<open>a / b\<close> in tenths, rounded to the nearest tenth with
  ties going to the even digit, as \<open>strconv\<close> rounds the exact decimal expansion of a
  float64. \<open>sprintf_1f a b\<close> is \<open>fmt.Sprintf("%.1f", x / y)\<close> for floats \<open>x\<close>, \<open>y\<close> of
  the integer values \<open>a \<ge> 0\<close> and \<open>b\<close>, where \<open>b\<close> is a power of two: the float division by a
  power of two is exact, so that the number printed is the rounding of \<open>a / b\<close> itself.
\<close>

definition roundTenths :: "int \<Rightarrow> int \<Rightarrow> nat" where
  "roundTenths a b =
     (let t = (10 * a) div b; r = (10 * a) mod b
      in nat (if 2 * r > b \<or> (2 * r = b \<and> odd t) then t + 1 else t))"

definition sprintf_1f :: "int \<Rightarrow> int \<Rightarrow> string" where
  "sprintf_1f a b =
     (let t = roundTenths a b in natStr (t div 10) @ ''.'' @ [digitChar (t mod 10)])"

section \<open>Human-readable sizes\<close>

text \<open>
  \<open>formatSize\<close> takes an \<open>int64\<close>. The argument is an \<open>int\<close>, and the one multiplication
  of the loop wraps around as a 64-bit signed multiplication does (\<open>wrap64\<close>). The loop
  \<open>for n := size / unit; n >= unit; n /= unit\<close> is \<open>sizeLoop\<close>, which returns the final
  \<open>div\<close> and \<open>exp\<close>; it only runs on \<open>n \<ge> 0\<close>, where Go's truncating division is \<open>div\<close>.
\<close>

definition unit :: int where
  "unit = 1024"

definition wrap64 :: "int \<Rightarrow> int" where
  "wrap64 x = (x + 2 ^ 63) mod 2 ^ 64 - 2 ^ 63"

function sizeLoop :: "int \<Rightarrow> int \<Rightarrow> nat \<Rightarrow> int \<times> nat" where
  "sizeLoop n dv exp =
     (if n \<ge> unit then sizeLoop (n div unit) (wrap64 (dv * unit)) (exp + 1) else (dv, exp))"
  by pat_completeness auto
termination
  by (relation "measure (\<lambda>(n, dv, exp). nat n)") (auto simp: unit_def)

declare sizeLoop.simps [simp del]

definition formatSize :: "int \<Rightarrow> string" where
  "formatSize sz =
     (if sz < unit then sprintf_d sz @ '' B''
      else (let (dv, exp) = sizeLoop (sz div unit) unit 0
            in sprintf_1f (float64 sz) (float64 dv) @ '' '' @ [''KMGTPE'' ! exp] @ ''B''))"

section \<open>The object store and the response\<close>

text \<open>
  The object-store client is outside the program; it is a parameter of the model. An
  error carries the code that \<open>minio.ToErrorResponse(err).Code\<close> reads. \<open>ObjectInfo\<close>
  has the fields of \<open>minio.ObjectInfo\<close> that \<open>main.go\<close> reads (\<open>ObjSize\<close> is its field
  \<open>Size\<close>); a time is the number of seconds since the zero value \<open>time.Time{}\<close>.
\<close>

datatype error = Error (Code: string) (Message: string)

type_synonym Time = int

record ObjectInfo =
  Key :: string
  ObjSize :: int
  LastModified :: Time
  ContentType :: string
  StorageClass :: string
  Err :: "error option"

definition zeroObjectInfo :: ObjectInfo where
  "zeroObjectInfo =
     \<lparr>Key = '''', ObjSize = 0, LastModified = 0, ContentType = '''', StorageClass = '''',
      Err = None\<rparr>"

text \<open>
  An object stream yields \<open>Bytes\<close> and then ends, or fails with \<open>ReadErr\<close> after them.
\<close>

record Object =
  Bytes :: string
  ReadErr :: "error option"

text \<open>
  \<open>StatObject\<close> returns an error or the metadata; with an error the client returns the
  zero \<open>ObjectInfo\<close>. \<open>ListObjects\<close> is the sequence the listing channel yields for a
  prefix, with \<open>Recursive: false\<close>. \<open>TmplExecute\<close> says whether executing the listing
  template on a path and its entries fails.
\<close>

datatype icon = DirIcon | FileIcon

record DirEntry =
  URL :: string
  Name :: string
  Size :: string
  ModTime :: Time
  IsDir :: bool
  Icon :: icon

record Env =
  StatObject :: "string \<Rightarrow> error + ObjectInfo"
  GetObject :: "string \<Rightarrow> error + Object"
  ListObjects :: "string \<Rightarrow> ObjectInfo list"
  TmplExecute :: "string \<Rightarrow> DirEntry list \<Rightarrow> error option"

text \<open>
  What a request leaves behind: the response headers, the status line once it is written,
  the body, and the lines written to the log. A body chunk is the bytes of an object, the
  listing given to the template (its path and entries), or a text.
\<close>

datatype chunk = FileBytes string | Listing string "DirEntry list" | Text string

datatype logEntry =
  StatFailed error | GetFailed error | WriteFailed error | ListFailed error
  | TemplateFailed error

record Response =
  Header :: "(string \<times> string) list"
  Status :: "nat option"
  Body :: "chunk list"
  Log :: "logEntry list"

definition newResponse :: Response where
  "newResponse = \<lparr>Header = [], Status = None, Body = [], Log = []\<rparr>"

definition logPrintf :: "Response \<Rightarrow> logEntry \<Rightarrow> Response" where
  "logPrintf w l = w\<lparr>Log := Log w @ [l]\<rparr>"

definition setHeader :: "Response \<Rightarrow> string \<Rightarrow> string \<Rightarrow> Response" where
  "setHeader w k v = w\<lparr>Header := (k, v) # filter (\<lambda>p. fst p \<noteq> k) (Header w)\<rparr>"

definition WriteHeader :: "Response \<Rightarrow> nat \<Rightarrow> Response" where
  "WriteHeader w code = (case Status w of None \<Rightarrow> w\<lparr>Status := Some code\<rparr> | Some _ \<Rightarrow> w)"

text \<open>A write sends the status 200 first when no status has been written.\<close>

definition Write :: "Response \<Rightarrow> chunk \<Rightarrow> Response" where
  "Write w c = (WriteHeader w 200)\<lparr>Body := Body w @ [c]\<rparr>"

definition http_Error :: "Response \<Rightarrow> string \<Rightarrow> nat \<Rightarrow> Response" where
  "http_Error w msg code =
     Write (WriteHeader
              (setHeader (setHeader w ''Content-Type'' ''text/plain; charset=utf-8'')
                 ''X-Content-Type-Options'' ''nosniff'') code)
       (Text (msg @ [CHR 0x0A]))"

definition io_Copy :: "Response \<Rightarrow> Object \<Rightarrow> Response \<times> error option" where
  "io_Copy w object = (Write w (FileBytes (Bytes object)), ReadErr object)"

section \<open>The handlers\<close>

definition getContentType :: "string \<Rightarrow> string" where
  "getContentType key =
     (let ext = ToLower (Ext key) in
      if ext = ''.html'' \<or> ext = ''.htm'' then ''text/html''
      else if ext = ''.css'' then ''text/css''
      else if ext = ''.js'' then ''application/javascript''
      else if ext = ''.png'' then ''image/png''
      else if ext = ''.jpg'' \<or> ext = ''.jpeg'' then ''image/jpeg''
      else if ext = ''.gif'' then ''image/gif''
      else if ext = ''.pdf'' then ''application/pdf''
      else ''application/octet-stream'')"

text \<open>The two icons are \<open>img\<close> elements with inline image data; \<open>icon\<close> names them.\<close>

definition getFileIcon :: "string \<Rightarrow> icon" where
  "getFileIcon filename = (if ToLower filename = ''dir'' then DirIcon else FileIcon)"

definition handleFile :: "Env \<Rightarrow> Response \<Rightarrow> string \<Rightarrow> bool \<times> Response" where
  "handleFile env w key =
     (let st = StatObject env key;
          objInfo = (case st of Inl _ \<Rightarrow> zeroObjectInfo | Inr i \<Rightarrow> i)
      in if ContentType objInfo = ''application/x-directory'' then (False, w)
         else case st of
           Inl err \<Rightarrow>
             (if Code err = ''NoSuchKey'' then (False, w)
              else (False, logPrintf w (StatFailed err)))
         | Inr _ \<Rightarrow>
             (case GetObject env key of
                Inl err \<Rightarrow> (False, logPrintf w (GetFailed err))
              | Inr object \<Rightarrow>
                  (let w1 = setHeader w ''Content-Type'' (getContentType key);
                       w2 = setHeader w1 ''Content-Length'' (sprintf_d (ObjSize objInfo))
                   in case io_Copy w2 object of
                        (w3, Some err) \<Rightarrow> (True, logPrintf w3 (WriteFailed err))
                      | (w3, None) \<Rightarrow> (True, w3))))"

text \<open>
  The first lines of \<open>handleDirectory\<close>: the prefix that is listed. The variable
  \<open>prefix\<close> of the source is \<open>pfx\<close>, and its value on entry is \<open>key\<close>.
\<close>

definition normPrefix :: "string \<Rightarrow> string" where
  "normPrefix pfx =
     (let p = (if \<not> HasSuffix pfx ''/'' then pfx @ ''/'' else pfx)
      in if p = ''/'' then '''' else p)"

definition parentEntry :: "string \<Rightarrow> DirEntry" where
  "parentEntry pfx =
     (let parent = Dir (TrimSuffix pfx ''/'') @ ''/''
      in \<lparr>URL = ''/'' @ parent, Name = ''..'', Size = ''-'', ModTime = 0, IsDir = True,
          Icon = getFileIcon ''dir''\<rparr>)"

text \<open>
  The loop over the listing channel, with the variables \<open>entries\<close> and \<open>hasContent\<close>;
  \<open>Inl\<close> is the \<open>return false\<close> on an item that carries an error.
\<close>

fun listLoop ::
  "string \<Rightarrow> ObjectInfo list \<Rightarrow> DirEntry list \<Rightarrow> bool \<Rightarrow> error + (DirEntry list \<times> bool)"
where
  "listLoop pfx [] entries hasContent = Inr (entries, hasContent)"
| "listLoop pfx (obj # ch) entries hasContent =
     (case Err obj of
        Some e \<Rightarrow> Inl e
      | None \<Rightarrow>
          if Key obj = pfx then listLoop pfx ch entries True
          else if StorageClass obj = ''''
            then listLoop pfx ch
                   (entries @ [\<lparr>URL = ''/'' @ Key obj, Name = Base (Key obj), Size = ''-'',
                                ModTime = 0, IsDir = True, Icon = getFileIcon ''dir''\<rparr>])
                   True
          else listLoop pfx ch
                 (entries @ [\<lparr>URL = ''/'' @ Key obj, Name = Base (Key obj),
                              Size = formatSize (ObjSize obj), ModTime = LastModified obj,
                              IsDir = False, Icon = getFileIcon ''file''\<rparr>])
                 True)"

definition handleDirectory :: "Env \<Rightarrow> Response \<Rightarrow> string \<Rightarrow> bool \<times> Response" where
  "handleDirectory env w key =
     (let pfx = normPrefix key;
          ch = ListObjects env pfx;
          entries = (if pfx \<noteq> '''' then [parentEntry pfx] else [])
      in case listLoop pfx ch entries False of
           Inl e \<Rightarrow> (False, logPrintf w (ListFailed e))
         | Inr (entries', hasContent) \<Rightarrow>
             if \<not> hasContent then (False, w)
             else (let w1 = setHeader w ''Content-Type'' ''text/html; charset=utf-8'';
                       w2 = Write w1 (Listing (''/'' @ pfx) entries')
                   in case TmplExecute env (''/'' @ pfx) entries' of
                        Some e \<Rightarrow> (True, logPrintf w2 (TemplateFailed e))
                      | None \<Rightarrow> (True, w2)))"

definition handler :: "Env \<Rightarrow> Response \<Rightarrow> string \<Rightarrow> Response" where
  "handler env w requestPath =
     (let key = TrimPrefix requestPath ''/'' in
      case handleFile env w key of
        (True, w1) \<Rightarrow> w1
      | (False, w1) \<Rightarrow>
          (case handleDirectory env w1 key of
             (True, w2) \<Rightarrow> w2
           | (False, w2) \<Rightarrow> http_Error w2 ''404 Not Found'' 404))"

section \<open>The listing in the words of the specification\<close>

text \<open>
  One row per listed item: a directory row (basename, size \<open>-\<close>, zero time) for an item
  without a storage class, a file row (basename, human-readable size, last-modified time)
  otherwise. The children of a prefix are the rows of the listed items other than the
  prefix itself, in the order of the listing.
\<close>

definition childEntry :: "ObjectInfo \<Rightarrow> DirEntry" where
  "childEntry obj =
     (if StorageClass obj = ''''
        then \<lparr>URL = ''/'' @ Key obj, Name = Base (Key obj), Size = ''-'', ModTime = 0,
              IsDir = True, Icon = DirIcon\<rparr>
      else \<lparr>URL = ''/'' @ Key obj, Name = Base (Key obj), Size = formatSize (ObjSize obj),
             ModTime = LastModified obj, IsDir = False, Icon = FileIcon\<rparr>)"

definition children :: "string \<Rightarrow> ObjectInfo list \<Rightarrow> DirEntry list" where
  "children pfx ch = map childEntry (filter (\<lambda>obj. Key obj \<noteq> pfx) ch)"

section \<open>Example stores\<close>

definition noSuchKey :: error where
  "noSuchKey = Error ''NoSuchKey'' ''The specified key does not exist.''"

definition storeFailure :: error where
  "storeFailure = Error ''InternalError'' ''connection reset''"

definition fileInfo :: "string \<Rightarrow> int \<Rightarrow> ObjectInfo" where
  "fileInfo k n =
     \<lparr>Key = k, ObjSize = n, LastModified = 63800000000, ContentType = ''text/plain'',
      StorageClass = ''STANDARD'', Err = None\<rparr>"

definition dirInfo :: "string \<Rightarrow> ObjectInfo" where
  "dirInfo k = zeroObjectInfo\<lparr>Key := k\<rparr>"

definition placeholderInfo :: "string \<Rightarrow> ObjectInfo" where
  "placeholderInfo k =
     \<lparr>Key = k, ObjSize = 0, LastModified = 63800000000,
      ContentType = ''application/x-directory'', StorageClass = ''STANDARD'', Err = None\<rparr>"

definition errInfo :: "error \<Rightarrow> ObjectInfo" where
  "errInfo e = zeroObjectInfo\<lparr>Err := Some e\<rparr>"

text \<open>
  A bucket with the objects \<open>a/b\<close>, \<open>a/b/c\<close> (whose stream breaks after two bytes) and the
  directory placeholder \<open>empty/\<close>.
\<close>

definition exampleStore :: Env where
  "exampleStore =
     \<lparr>StatObject = (\<lambda>k. if k = ''empty/'' then Inr (placeholderInfo ''empty/'')
                        else if k = ''a/b'' then Inr (fileInfo ''a/b'' 5)
                        else if k = ''a/b/c'' then Inr (fileInfo ''a/b/c'' 1536)
                        else Inl noSuchKey),
      GetObject = (\<lambda>k. if k = ''a/b'' then Inr \<lparr>Bytes = ''hello'', ReadErr = None\<rparr>
                       else if k = ''a/b/c''
                         then Inr \<lparr>Bytes = ''he'', ReadErr = Some storeFailure\<rparr>
                       else Inl noSuchKey),
      ListObjects = (\<lambda>p. if p = '''' then [dirInfo ''a/'', dirInfo ''empty/'']
                         else if p = ''a/'' then [fileInfo ''a/b'' 5, dirInfo ''a/b/'']
                         else if p = ''a/b/'' then [fileInfo ''a/b/c'' 1536]
                         else if p = ''empty/'' then [placeholderInfo ''empty/'']
                         else []),
      TmplExecute = (\<lambda>p es. None)\<rparr>"

text \<open>
  A store in trouble: \<open>f.txt\<close> can be stat'd but not fetched, every other stat fails, and
  the listing of \<open>d/\<close> breaks after its first item.
\<close>

definition failingStore :: Env where
  "failingStore =
     \<lparr>StatObject = (\<lambda>k. if k = ''f.txt'' then Inr (fileInfo ''f.txt'' 5)
                        else if k = ''d'' then Inl noSuchKey
                        else Inl storeFailure),
      GetObject = (\<lambda>k. Inl storeFailure),
      ListObjects = (\<lambda>p. if p = ''d/'' then [fileInfo ''d/x'' 1, errInfo storeFailure]
                         else []),
      TmplExecute = (\<lambda>p es. None)\<rparr>"

section \<open>Human-readable sizes: proofs\<close>

lemma wrap64_id: "- (2 ^ 63) \<le> x \<Longrightarrow> x < 2 ^ 63 \<Longrightarrow> wrap64 x = x"
  by (simp add: wrap64_def)

lemma div1024_bounds:
  "1024 * a \<le> n \<Longrightarrow> n < 1024 * b \<Longrightarrow> a \<le> n div 1024 \<and> n div 1024 < (b::int)"
  by arith

lemma sizeLoop_pow:
  "1024 ^ j \<le> n \<Longrightarrow> n < 1024 ^ Suc j \<Longrightarrow> 0 < dv \<Longrightarrow> dv * 1024 ^ j < 2 ^ 63
   \<Longrightarrow> sizeLoop n dv e = (dv * 1024 ^ j, e + j)"
proof (induction j arbitrary: n dv e)
  case 0
  then show ?case by (simp add: sizeLoop.simps unit_def)
next
  case (Suc j)
  have pos: "(1::int) \<le> 1024 ^ j" by simp
  then have "(1024::int) \<le> 1024 * 1024 ^ j" by linarith
  then have n: "unit \<le> n" using Suc.prems(1) unfolding unit_def power_Suc by linarith
  have "dv * 1024 * 1 \<le> dv * 1024 * 1024 ^ j" using pos Suc.prems(3)
    by (intro mult_left_mono) simp_all
  then have small: "dv * 1024 < 2 ^ 63" using Suc.prems(4) by (simp add: mult.assoc)
  have w: "wrap64 (dv * unit) = dv * 1024"
    using small Suc.prems(3) by (simp add: wrap64_id unit_def)
  have b: "1024 ^ j \<le> n div 1024 \<and> n div 1024 < 1024 ^ Suc j"
    using Suc.prems(1,2) by (intro div1024_bounds) simp_all
  have "sizeLoop n dv e = sizeLoop (n div 1024) (dv * 1024) (e + 1)"
    using n w by (subst sizeLoop.simps) (simp add: unit_def)
  also have "\<dots> = (dv * 1024 * 1024 ^ j, e + 1 + j)"
    using b Suc.prems(3) Suc.prems(4) by (intro Suc.IH) (simp_all add: mult.assoc)
  finally show ?case by (simp add: mult.assoc)
qed

lemma excessBits_small: "m < 2 ^ 53 \<Longrightarrow> excessBits m = 0"
  by (subst excessBits.simps) simp

lemma float64_small: "0 \<le> n \<Longrightarrow> n < 2 ^ 53 \<Longrightarrow> float64 n = n"
  by (simp add: float64_def excessBits_small Let_def sgn_if)

lemma pow1024_cases:
  assumes "1 \<le> k" "(1024::int) ^ k < 2 ^ 63"
  shows "k = 1 \<or> k = 2 \<or> k = 3 \<or> k = 4 \<or> k = 5 \<or> k = 6"
proof -
  have "k < 7"
  proof (rule ccontr)
    assume "\<not> k < 7"
    then have "(1024::int) ^ 7 \<le> 1024 ^ k" by (intro power_increasing) simp_all
    with assms(2) show False by simp
  qed
  with assms(1) show ?thesis by arith
qed

lemma float64_pow6: "float64 (1024 ^ 6) = 1024 ^ 6"
  by code_simp

lemma float64_pow1024:
  assumes "k = 1 \<or> k = 2 \<or> k = 3 \<or> k = 4 \<or> k = 5 \<or> k = 6"
  shows "float64 (1024 ^ k) = 1024 ^ k"
proof -
  show ?thesis
  proof (cases "k = 6")
    case True
    show ?thesis unfolding True by (rule float64_pow6)
  next
    case False
    then have "(1024::int) ^ k < 2 ^ 53" using assms by auto
    then show ?thesis by (simp add: float64_small)
  qed
qed

lemma roundTenths_nearest:
  assumes "0 \<le> a" "0 < b"
  shows "2 * \<bar>10 * a - int (roundTenths a b) * b\<bar> \<le> b"
proof -
  define t where "t = (10 * a) div b"
  define r where "r = (10 * a) mod b"
  have eq: "10 * a = t * b + r" by (simp add: t_def r_def)
  have r: "0 \<le> r" "r < b" using assms by (simp_all add: r_def)
  have t: "0 \<le> t" using assms by (simp add: t_def pos_imp_zdiv_nonneg_iff)
  show ?thesis
  proof (cases "2 * r > b \<or> (2 * r = b \<and> odd t)")
    case True
    then have "int (roundTenths a b) = t + 1"
      using t by (simp add: roundTenths_def Let_def t_def r_def)
    then have "10 * a - int (roundTenths a b) * b = r - b"
      using eq by (simp add: algebra_simps)
    then show ?thesis using r True by auto
  next
    case False
    then have "int (roundTenths a b) = t"
      using t by (simp add: roundTenths_def Let_def t_def r_def)
    then have "10 * a - int (roundTenths a b) * b = r"
      using eq by (simp add: algebra_simps)
    then show ?thesis using r False by auto
  qed
qed


lemma float64_nonneg: "0 \<le> n \<Longrightarrow> 0 \<le> float64 n"
  by (simp add: float64_def Let_def sgn_if pos_imp_zdiv_nonneg_iff)

lemma formatSize_bytes: "0 \<le> sz \<Longrightarrow> sz < 1024 \<Longrightarrow> formatSize sz = natStr (nat sz) @ '' B''"
  by (simp add: formatSize_def unit_def sprintf_d_def)

lemma formatSize_scaled:
  assumes "sz < 2 ^ 63" "1 \<le> k" "1024 ^ k \<le> sz" "sz < 1024 ^ Suc k"
  shows "k \<le> 6"
    and "formatSize sz =
           sprintf_1f (float64 sz) (1024 ^ k) @ '' '' @ [''KMGTPE'' ! (k - 1)] @ ''B''"
proof -
  have small: "(1024::int) ^ k < 2 ^ 63" using assms(1,3) by linarith
  have ks: "k = 1 \<or> k = 2 \<or> k = 3 \<or> k = 4 \<or> k = 5 \<or> k = 6"
    using assms(2) small by (rule pow1024_cases)
  then show "k \<le> 6" by auto
  obtain j where j: "k = Suc j" using assms(2) by (cases k) auto
  have b: "1024 ^ j \<le> sz div 1024 \<and> sz div 1024 < 1024 ^ Suc j"
    using assms(3,4) unfolding j by (intro div1024_bounds) simp_all
  have loop: "sizeLoop (sz div unit) unit 0 = (1024 ^ k, k - 1)"
    using sizeLoop_pow [of j "sz div 1024" 1024 0] b small by (simp add: j unit_def)
  have big: "\<not> sz < unit"
  proof -
    have "(1024::int) \<le> 1024 * 1024 ^ j" by simp
    then show ?thesis using assms(3) unfolding j unit_def power_Suc by linarith
  qed
  show "formatSize sz =
          sprintf_1f (float64 sz) (1024 ^ k) @ '' '' @ [''KMGTPE'' ! (k - 1)] @ ''B''"
    using big loop float64_pow1024 [OF ks] by (simp add: formatSize_def)
qed

text \<open>
  C8. For a size \<open>0 \<le> sz < 2 ^ 63\<close>: below 1024 the result is the decimal number
  followed by \<open>B\<close>; otherwise the size is divided by the largest power \<open>1024 ^ k\<close> not
  above it (\<open>1 \<le> k \<le> 6\<close>), the quotient is printed with one decimal, rounded to the
  nearest tenth, and followed by the \<open>k\<close>-th letter of \<open>KMGTPE\<close> and \<open>B\<close>. The five
  sizes of the specification give \<open>0 B\<close>, \<open>1023 B\<close>, \<open>1.0 KB\<close>, \<open>1.5 KB\<close> and
  \<open>1.0 MB\<close>.
\<close>

theorem formatSize_spec:
  assumes "0 \<le> sz" and "sz < 2 ^ 63"
  shows "(sz < 1024 \<longrightarrow> formatSize sz = natStr (nat sz) @ '' B'') \<and>
         (\<forall>k. 1 \<le> k \<and> 1024 ^ k \<le> sz \<and> sz < 1024 ^ Suc k \<longrightarrow>
            k \<le> 6 \<and>
            formatSize sz =
              natStr (roundTenths (float64 sz) (1024 ^ k) div 10) @ ''.'' @
              [digitChar (roundTenths (float64 sz) (1024 ^ k) mod 10)] @ '' '' @
              [''KMGTPE'' ! (k - 1)] @ ''B'' \<and>
            2 * \<bar>10 * float64 sz - int (roundTenths (float64 sz) (1024 ^ k)) * 1024 ^ k\<bar>
              \<le> 1024 ^ k) \<and>
         (sz < 2 ^ 53 \<longrightarrow> float64 sz = sz) \<and>
         formatSize 0 = ''0 B'' \<and> formatSize 1023 = ''1023 B'' \<and>
         formatSize 1024 = ''1.0 KB'' \<and> formatSize 1536 = ''1.5 KB'' \<and>
         formatSize 1048576 = ''1.0 MB''"
proof (intro conjI allI impI)
  show "formatSize sz = natStr (nat sz) @ '' B''" if "sz < 1024"
    using assms(1) that by (rule formatSize_bytes)
next
  fix k assume k: "1 \<le> k \<and> 1024 ^ k \<le> sz \<and> sz < 1024 ^ Suc k"
  show "k \<le> 6" using formatSize_scaled(1) [OF assms(2)] k by blast
  show "formatSize sz =
          natStr (roundTenths (float64 sz) (1024 ^ k) div 10) @ ''.'' @
          [digitChar (roundTenths (float64 sz) (1024 ^ k) mod 10)] @ '' '' @
          [''KMGTPE'' ! (k - 1)] @ ''B''"
    using formatSize_scaled(2) [OF assms(2), of k] k by (simp add: sprintf_1f_def Let_def)
  show "2 * \<bar>10 * float64 sz - int (roundTenths (float64 sz) (1024 ^ k)) * 1024 ^ k\<bar>
          \<le> 1024 ^ k"
    using float64_nonneg [OF assms(1)] by (intro roundTenths_nearest) simp_all
next
  show "float64 sz = sz" if "sz < 2 ^ 53" using assms(1) that by (rule float64_small)
next
  show "formatSize 0 = ''0 B''" by code_simp
  show "formatSize 1023 = ''1023 B''" by code_simp
  show "formatSize 1024 = ''1.0 KB''" by code_simp
  show "formatSize 1536 = ''1.5 KB''" by code_simp
  show "formatSize 1048576 = ''1.0 MB''" by code_simp
qed

theorem formatSize_spec_witness:
  "(0::int) \<le> 1280 \<and> (1280::int) < 2 ^ 63 \<and> (1::nat) \<le> 1 \<and> (1024::int) ^ 1 \<le> 1280 \<and>
   (1280::int) < 1024 ^ Suc 1 \<and> formatSize 1280 = ''1.2 KB'' \<and> (5::int) < 1024 \<and>
   formatSize 5 = ''5 B'' \<and> (1280::int) < 2 ^ 53 \<and> float64 1280 = 1280"
proof -
  have h: "(0::int) \<le> 1280" "(1280::int) < 2 ^ 63" by simp_all
  have k: "(1::nat) \<le> 1 \<and> (1024::int) ^ 1 \<le> 1280 \<and> (1280::int) < 1024 ^ Suc 1" by simp
  have "formatSize 1280 =
          natStr (roundTenths (float64 1280) (1024 ^ 1) div 10) @ ''.'' @
          [digitChar (roundTenths (float64 1280) (1024 ^ 1) mod 10)] @ '' '' @
          [''KMGTPE'' ! (1 - 1)] @ ''B''"
    using formatSize_spec [OF h] k by blast
  also have "\<dots> = ''1.2 KB''" by code_simp
  finally have a: "formatSize 1280 = ''1.2 KB''" .
  have h5: "(0::int) \<le> 5" "(5::int) < 2 ^ 63" by simp_all
  have "formatSize 5 = natStr (nat 5) @ '' B''" using formatSize_spec [OF h5] by simp
  also have "\<dots> = ''5 B''" by code_simp
  finally have b: "formatSize 5 = ''5 B''" .
  have "float64 1280 = 1280" using formatSize_spec [OF h] by simp
  then show ?thesis using a b by simp
qed

section \<open>The handlers: proofs\<close>

lemma getFileIcon_dir: "getFileIcon ''dir'' = DirIcon"
  by code_simp

lemma getFileIcon_file: "getFileIcon ''file'' = FileIcon"
  by code_simp

lemma listLoop_children:
  "\<forall>obj \<in> set ch. Err obj = None \<Longrightarrow>
   listLoop pfx ch entries hasContent = Inr (entries @ children pfx ch, hasContent \<or> ch \<noteq> [])"
proof (induction ch arbitrary: entries hasContent)
  case Nil
  then show ?case by (simp add: children_def)
next
  case (Cons obj ch)
  then have "Err obj = None" and rest: "\<forall>obj \<in> set ch. Err obj = None" by simp_all
  then show ?case
    using Cons.IH [OF rest]
    by (simp add: children_def childEntry_def getFileIcon_dir getFileIcon_file)
qed

lemma listLoop_error:
  "\<exists>obj \<in> set ch. Err obj \<noteq> None \<Longrightarrow> \<exists>e. listLoop pfx ch entries hasContent = Inl e"
proof (induction ch arbitrary: entries hasContent)
  case Nil
  then show ?case by simp
next
  case (Cons obj ch)
  show ?case
  proof (cases "Err obj")
    case (Some e)
    then show ?thesis by simp
  next
    case None
    with Cons.prems have "\<exists>obj \<in> set ch. Err obj \<noteq> None" by auto
    from Cons.IH [OF this] None show ?thesis by simp
  qed
qed

lemma handleFile_miss:
  assumes "\<not> fst (handleFile env w key)"
  shows "\<exists>l. snd (handleFile env w key) = w\<lparr>Log := l\<rparr>"
proof -
  have "snd (handleFile env w key) = w \<or> (\<exists>x. snd (handleFile env w key) = logPrintf w x)"
    using assms
    by (auto simp: handleFile_def Let_def io_Copy_def split: sum.splits if_splits option.splits)
  then show ?thesis
  proof
    assume "snd (handleFile env w key) = w"
    then have "snd (handleFile env w key) = w\<lparr>Log := Log w\<rparr>" by simp
    then show ?thesis ..
  next
    assume "\<exists>x. snd (handleFile env w key) = logPrintf w x"
    then show ?thesis by (auto simp: logPrintf_def)
  qed
qed

lemma handleDirectory_miss:
  assumes "\<not> fst (handleDirectory env w key)"
  shows "\<exists>l. snd (handleDirectory env w key) = w\<lparr>Log := l\<rparr>"
proof -
  have "snd (handleDirectory env w key) = w
        \<or> (\<exists>x. snd (handleDirectory env w key) = logPrintf w x)"
    using assms
    by (auto simp: handleDirectory_def Let_def split: sum.splits if_splits option.splits prod.splits)
  then show ?thesis
  proof
    assume "snd (handleDirectory env w key) = w"
    then have "snd (handleDirectory env w key) = w\<lparr>Log := Log w\<rparr>" by simp
    then show ?thesis ..
  next
    assume "\<exists>x. snd (handleDirectory env w key) = logPrintf w x"
    then show ?thesis by (auto simp: logPrintf_def)
  qed
qed

lemma handleDirectory_hit_status:
  assumes "fst (handleDirectory env w key)" and "Status w = None"
  shows "Status (snd (handleDirectory env w key)) = Some 200"
  using assms
  by (auto simp: handleDirectory_def Let_def Write_def WriteHeader_def setHeader_def logPrintf_def
           split: sum.splits if_splits option.splits prod.splits)

lemma not_found_response:
  assumes "Status w = None" and "Body w = []"
  shows "Status (http_Error (w\<lparr>Log := l\<rparr>) ''404 Not Found'' 404) = Some 404"
    and "Body (http_Error (w\<lparr>Log := l\<rparr>) ''404 Not Found'' 404)
           = [Text (''404 Not Found'' @ [CHR 0x0A])]"
  using assms by (simp_all add: http_Error_def Write_def WriteHeader_def setHeader_def)

lemma handler_cases:
  "handler env w path =
     (if fst (handleFile env w (TrimPrefix path ''/''))
        then snd (handleFile env w (TrimPrefix path ''/''))
      else if fst (handleDirectory env (snd (handleFile env w (TrimPrefix path ''/'')))
                     (TrimPrefix path ''/''))
        then snd (handleDirectory env (snd (handleFile env w (TrimPrefix path ''/'')))
                    (TrimPrefix path ''/''))
      else http_Error
             (snd (handleDirectory env (snd (handleFile env w (TrimPrefix path ''/'')))
                     (TrimPrefix path ''/'')))
             ''404 Not Found'' 404)"
  by (auto simp: handler_def Let_def split: prod.splits bool.splits)

lemma handler_both_miss:
  assumes "\<not> fst (handleFile env w key)"
    and "\<not> fst (handleDirectory env (snd (handleFile env w key)) key)"
    and "key = TrimPrefix path ''/''"
    and "Status w = None" and "Body w = []"
  shows "Status (handler env w path) = Some 404"
    and "Body (handler env w path) = [Text (''404 Not Found'' @ [CHR 0x0A])]"
proof -
  obtain l where l: "snd (handleFile env w key) = w\<lparr>Log := l\<rparr>"
    using handleFile_miss [OF assms(1)] by blast
  obtain l' where l': "snd (handleDirectory env (w\<lparr>Log := l\<rparr>) key) = w\<lparr>Log := l'\<rparr>"
    using handleDirectory_miss [of env "w\<lparr>Log := l\<rparr>" key] assms(2) l by auto
  have h: "handler env w path = http_Error (w\<lparr>Log := l'\<rparr>) ''404 Not Found'' 404"
    using assms(1,2) l l' unfolding assms(3) by (simp add: handler_cases)
  show "Status (handler env w path) = Some 404"
    unfolding h using assms(4,5) by (rule not_found_response(1))
  show "Body (handler env w path) = [Text (''404 Not Found'' @ [CHR 0x0A])]"
    unfolding h using assms(4,5) by (rule not_found_response(2))
qed

text \<open>
  C9. When the metadata of a key carries the content type \<open>application/x-directory\<close>,
  \<open>handleFile\<close> reports "not handled" and leaves the response as it was (no header, no
  body, no log line), although an object exists at the key; the handler then goes on to
  the directory resolution of the same key.
\<close>

theorem handleFile_directory_marker:
  assumes "StatObject env key = Inr info"
    and "ContentType info = ''application/x-directory''"
  shows "handleFile env w key = (False, w) \<and>
         (TrimPrefix path ''/'' = key \<longrightarrow>
            handler env w path =
              (if fst (handleDirectory env w key) then snd (handleDirectory env w key)
               else http_Error (snd (handleDirectory env w key)) ''404 Not Found'' 404))"
proof -
  have f: "handleFile env w key = (False, w)"
    using assms by (simp add: handleFile_def)
  then show ?thesis by (simp add: handler_cases)
qed

theorem handleFile_directory_marker_witness:
  "StatObject exampleStore ''empty/'' = Inr (placeholderInfo ''empty/'') \<and>
   ContentType (placeholderInfo ''empty/'') = ''application/x-directory'' \<and>
   handleFile exampleStore newResponse ''empty/'' = (False, newResponse) \<and>
   TrimPrefix ''/empty/'' ''/'' = ''empty/'' \<and>
   Body (handler exampleStore newResponse ''/empty/'')
     = [Listing ''/empty/'' [parentEntry ''empty/'']]"
proof -
  have a: "StatObject exampleStore ''empty/'' = Inr (placeholderInfo ''empty/'')"
    by (simp add: exampleStore_def)
  have b: "ContentType (placeholderInfo ''empty/'') = ''application/x-directory''"
    by (simp add: placeholderInfo_def)
  have k: "TrimPrefix ''/empty/'' ''/'' = ''empty/''" by (simp add: TrimPrefix_def)
  have d: "fst (handleDirectory exampleStore newResponse ''empty/'') \<and>
           Body (snd (handleDirectory exampleStore newResponse ''empty/''))
             = [Listing ''/empty/'' [parentEntry ''empty/'']]"
    by code_simp
  from handleFile_directory_marker [OF a b, of newResponse "''/empty/''"] k d
  show ?thesis using a b by simp
qed

text \<open>
  C5. When the metadata fetch of a key fails with an error whose code is not
  \<open>NoSuchKey\<close>, \<open>handleFile\<close> logs the error and reports "not handled"; the handler goes
  on to the directory resolution, and the status of the response is 200 (a listing) or
  404, never another one.
\<close>

theorem handleFile_stat_failure:
  assumes "StatObject env key = Inl e" and "Code e \<noteq> ''NoSuchKey''"
  shows "handleFile env w key = (False, logPrintf w (StatFailed e)) \<and>
         (TrimPrefix path ''/'' = key \<longrightarrow>
            handler env w path =
              (if fst (handleDirectory env (logPrintf w (StatFailed e)) key)
                 then snd (handleDirectory env (logPrintf w (StatFailed e)) key)
               else http_Error (snd (handleDirectory env (logPrintf w (StatFailed e)) key))
                      ''404 Not Found'' 404) \<and>
            (Status (handler env newResponse path) = Some 200
               \<or> Status (handler env newResponse path) = Some 404))"
proof -
  have f: "\<And>w. handleFile env w key = (False, logPrintf w (StatFailed e))"
    using assms by (simp add: handleFile_def zeroObjectInfo_def)
  have s: "Status (handler env newResponse path) = Some 200
             \<or> Status (handler env newResponse path) = Some 404"
    if k: "TrimPrefix path ''/'' = key"
  proof (cases "fst (handleDirectory env (logPrintf newResponse (StatFailed e)) key)")
    case True
    have "Status (logPrintf newResponse (StatFailed e)) = None"
      by (simp add: logPrintf_def newResponse_def)
    from handleDirectory_hit_status [OF True this] True show ?thesis
      using f [of newResponse] by (simp add: handler_cases k)
  next
    case False
    have "Status (handler env newResponse path) = Some 404"
      using f [of newResponse] False
      by (intro handler_both_miss(1) [where key = key]) (simp_all add: k newResponse_def)
    then show ?thesis ..
  qed
  show ?thesis using f [of w] s by (simp add: handler_cases)
qed

theorem handleFile_stat_failure_witness:
  "StatObject failingStore ''zzz'' = Inl storeFailure \<and> Code storeFailure \<noteq> ''NoSuchKey'' \<and>
   TrimPrefix ''/zzz'' ''/'' = ''zzz'' \<and>
   handleFile failingStore newResponse ''zzz''
     = (False, logPrintf newResponse (StatFailed storeFailure)) \<and>
   Status (handler failingStore newResponse ''/zzz'') = Some 404"
proof -
  have a: "StatObject failingStore ''zzz'' = Inl storeFailure"
    by (simp add: failingStore_def)
  have b: "Code storeFailure \<noteq> ''NoSuchKey''" by (simp add: storeFailure_def)
  have k: "TrimPrefix ''/zzz'' ''/'' = ''zzz''" by (simp add: TrimPrefix_def)
  have n: "Status (handler failingStore newResponse ''/zzz'') \<noteq> Some 200" by code_simp
  note t = handleFile_stat_failure [OF a b, of newResponse "''/zzz''"]
  from t k have "Status (handler failingStore newResponse ''/zzz'') = Some 200
                   \<or> Status (handler failingStore newResponse ''/zzz'') = Some 404"
    by blast
  with n have "Status (handler failingStore newResponse ''/zzz'') = Some 404" by blast
  with t a b k show ?thesis by blast
qed


text \<open>
  C4. When an item of the listing of the prefix carries an error, wherever it stands in
  the listing and whatever came before it, \<open>handleDirectory\<close> logs an error, reports "not
  handled" and writes nothing to the response; a request whose key is not served as a
  file is then answered with 404 and the body \<open>404 Not Found\<close>, with no listing.
\<close>

theorem handleDirectory_listing_error:
  assumes "\<exists>obj \<in> set (ListObjects env (normPrefix key)). Err obj \<noteq> None"
  shows "(\<exists>e. handleDirectory env w key = (False, logPrintf w (ListFailed e))) \<and>
         (TrimPrefix path ''/'' = key \<and> \<not> fst (handleFile env newResponse key) \<longrightarrow>
            Status (handler env newResponse path) = Some 404 \<and>
            Body (handler env newResponse path) = [Text (''404 Not Found'' @ [CHR 0x0A])])"
proof -
  have d: "\<exists>e. handleDirectory env w key = (False, logPrintf w (ListFailed e))" for w
  proof -
    obtain e where
      "listLoop (normPrefix key) (ListObjects env (normPrefix key))
         (if normPrefix key \<noteq> [] then [parentEntry (normPrefix key)] else []) False = Inl e"
      using listLoop_error [OF assms] by blast
    then have "handleDirectory env w key = (False, logPrintf w (ListFailed e))"
      by (simp add: handleDirectory_def Let_def)
    then show ?thesis ..
  qed
  have "Status (handler env newResponse path) = Some 404 \<and>
        Body (handler env newResponse path) = [Text (''404 Not Found'' @ [CHR 0x0A])]"
    if k: "TrimPrefix path ''/'' = key" and f: "\<not> fst (handleFile env newResponse key)"
  proof -
    have m: "\<not> fst (handleDirectory env (snd (handleFile env newResponse key)) key)"
      using d [of "snd (handleFile env newResponse key)"] by auto
    show ?thesis
      using handler_both_miss [OF f m k [symmetric]] by (simp add: newResponse_def)
  qed
  with d [of w] show ?thesis by blast
qed

theorem handleDirectory_listing_error_witness:
  "(\<exists>obj \<in> set (ListObjects failingStore (normPrefix ''d'')). Err obj \<noteq> None) \<and>
   TrimPrefix ''/d'' ''/'' = ''d'' \<and> \<not> fst (handleFile failingStore newResponse ''d'') \<and>
   handleDirectory failingStore newResponse ''d''
     = (False, logPrintf newResponse (ListFailed storeFailure)) \<and>
   Status (handler failingStore newResponse ''/d'') = Some 404"
proof -
  have l: "ListObjects failingStore (normPrefix ''d'') = [fileInfo ''d/x'' 1, errInfo storeFailure]"
    by code_simp
  have a: "\<exists>obj \<in> set (ListObjects failingStore (normPrefix ''d'')). Err obj \<noteq> None"
    unfolding l by (simp add: errInfo_def)
  have k: "TrimPrefix ''/d'' ''/'' = ''d''" by (simp add: TrimPrefix_def)
  have f: "\<not> fst (handleFile failingStore newResponse ''d'')" by code_simp
  have v: "handleDirectory failingStore newResponse ''d''
             = (False, logPrintf newResponse (ListFailed storeFailure))"
    by code_simp
  from handleDirectory_listing_error [OF a, of newResponse "''/d''"] k f v a
  show ?thesis by blast
qed

text \<open>
  C6. In a listing without errors, the loop of \<open>handleDirectory\<close> appends nothing for an
  item whose key is the prefix and exactly one entry for every other item, in the order
  of the listing: the directory row of \<open>childEntry\<close> (basename, size \<open>-\<close>, zero time) when
  the storage class is empty, its file row (basename, \<open>formatSize\<close> of the size,
  last-modified time) otherwise.
\<close>

theorem listLoop_entries:
  assumes "\<forall>obj \<in> set ch. Err obj = None"
  shows "listLoop pfx ch entries hasContent =
           Inr (entries @ concat (map (\<lambda>obj. if Key obj = pfx then [] else [childEntry obj]) ch),
                hasContent \<or> ch \<noteq> [])"
proof -
  have "children pfx ch = concat (map (\<lambda>obj. if Key obj = pfx then [] else [childEntry obj]) ch)"
    by (induction ch) (simp_all add: children_def)
  then show ?thesis using listLoop_children [OF assms, of pfx entries hasContent] by simp
qed

theorem listLoop_entries_witness:
  "Err (placeholderInfo ''a/'') = None \<and> Err (dirInfo ''a/sub/'') = None \<and>
   Err (fileInfo ''a/f.txt'' 1536) = None \<and>
   listLoop ''a/'' [placeholderInfo ''a/'', dirInfo ''a/sub/'', fileInfo ''a/f.txt'' 1536] [] False
     = Inr ([\<lparr>URL = ''/a/sub/'', Name = ''sub'', Size = ''-'', ModTime = 0, IsDir = True,
               Icon = DirIcon\<rparr>,
             \<lparr>URL = ''/a/f.txt'', Name = ''f.txt'', Size = ''1.5 KB'', ModTime = 63800000000,
               IsDir = False, Icon = FileIcon\<rparr>], True)"
proof -
  have a: "\<forall>obj \<in> set [placeholderInfo ''a/'', dirInfo ''a/sub/'', fileInfo ''a/f.txt'' 1536].
             Err obj = None"
    by (simp add: placeholderInfo_def dirInfo_def fileInfo_def zeroObjectInfo_def)
  have e: "[] @ concat (map (\<lambda>obj. if Key obj = ''a/'' then [] else [childEntry obj])
                     [placeholderInfo ''a/'', dirInfo ''a/sub/'', fileInfo ''a/f.txt'' 1536])
           = [\<lparr>URL = ''/a/sub/'', Name = ''sub'', Size = ''-'', ModTime = 0, IsDir = True,
               Icon = DirIcon\<rparr>,
              \<lparr>URL = ''/a/f.txt'', Name = ''f.txt'', Size = ''1.5 KB'', ModTime = 63800000000,
               IsDir = False, Icon = FileIcon\<rparr>]"
    by code_simp
  from listLoop_entries [OF a, of "''a/''" "[]" False] show ?thesis
    unfolding e using a by simp
qed

lemma lastSlashFrom_none:
  "n \<le> length s \<Longrightarrow> CHR ''/'' \<notin> set s \<Longrightarrow> lastSlashFrom s n = - 1"
  by (induction n) (auto simp: in_set_conv_nth)

lemma Dir_single_segment: "CHR ''/'' \<notin> set s \<Longrightarrow> Dir s = ''.''"
  by (simp add: Dir_def Split_def lastSlash_def lastSlashFrom_none Clean_def)

lemma handleDirectory_renders:
  assumes "\<forall>obj \<in> set (ListObjects env (normPrefix key)). Err obj = None"
    and "ListObjects env (normPrefix key) \<noteq> []"
  shows "fst (handleDirectory env w key)"
    and "Body (snd (handleDirectory env w key)) =
           Body w @ [Listing (''/'' @ normPrefix key)
                       ((if normPrefix key = '''' then [] else [parentEntry (normPrefix key)])
                        @ children (normPrefix key) (ListObjects env (normPrefix key)))]"
  using assms
    listLoop_children [OF assms(1), of "normPrefix key"
      "if normPrefix key \<noteq> [] then [parentEntry (normPrefix key)] else []" False]
  by (auto simp: handleDirectory_def Let_def Write_def WriteHeader_def setHeader_def
        logPrintf_def split: option.splits)

text \<open>
  C7. When a listing is rendered (the listing of the prefix has no error and at least one
  item), its entries are: for a prefix other than the root, the one entry \<open>..\<close>, a
  directory whose URL is \<open>/\<close>, the parent (\<open>path.Dir\<close>) of the prefix without its final
  slash, and \<open>/\<close>; then the children in the order of the listing. For the root (the keys
  \<open>''''\<close> and \<open>/\<close>) there is no entry \<open>..\<close>, and every listed item with a non-empty key is a
  child.
\<close>

theorem handleDirectory_entry_order:
  assumes "\<forall>obj \<in> set (ListObjects env (normPrefix key)). Err obj = None"
    and "ListObjects env (normPrefix key) \<noteq> []"
  shows "fst (handleDirectory env w key) \<and>
         Body (snd (handleDirectory env w key)) =
           Body w @ [Listing (''/'' @ normPrefix key)
                       ((if normPrefix key = '''' then [] else [parentEntry (normPrefix key)])
                        @ map childEntry
                            (filter (\<lambda>obj. Key obj \<noteq> normPrefix key)
                               (ListObjects env (normPrefix key))))] \<and>
         parentEntry (normPrefix key) =
           \<lparr>URL = ''/'' @ Dir (TrimSuffix (normPrefix key) ''/'') @ ''/'', Name = ''..'',
            Size = ''-'', ModTime = 0, IsDir = True, Icon = DirIcon\<rparr> \<and>
         normPrefix '''' = '''' \<and> normPrefix ''/'' = '''' \<and>
         ((\<forall>obj \<in> set (ListObjects env ''''). Key obj \<noteq> '''') \<longrightarrow>
            filter (\<lambda>obj. Key obj \<noteq> '''') (ListObjects env '''') = ListObjects env '''')"
proof (intro conjI)
  show "fst (handleDirectory env w key)" using assms by (rule handleDirectory_renders(1))
  show "Body (snd (handleDirectory env w key)) =
          Body w @ [Listing (''/'' @ normPrefix key)
                      ((if normPrefix key = '''' then [] else [parentEntry (normPrefix key)])
                       @ map childEntry
                           (filter (\<lambda>obj. Key obj \<noteq> normPrefix key)
                              (ListObjects env (normPrefix key))))]"
    using handleDirectory_renders(2) [OF assms, of w] by (simp add: children_def)
  show "parentEntry (normPrefix key) =
          \<lparr>URL = ''/'' @ Dir (TrimSuffix (normPrefix key) ''/'') @ ''/'', Name = ''..'',
           Size = ''-'', ModTime = 0, IsDir = True, Icon = DirIcon\<rparr>"
    by (simp add: parentEntry_def getFileIcon_dir)
  show "normPrefix '''' = ''''" by (simp add: normPrefix_def HasSuffix_def)
  show "normPrefix ''/'' = ''''" by (simp add: normPrefix_def HasSuffix_def)
  show "(\<forall>obj \<in> set (ListObjects env ''''). Key obj \<noteq> '''') \<longrightarrow>
          filter (\<lambda>obj. Key obj \<noteq> '''') (ListObjects env '''') = ListObjects env ''''"
    by simp
qed

theorem handleDirectory_entry_order_witness:
  "ListObjects exampleStore (normPrefix ''a'') = [fileInfo ''a/b'' 5, dirInfo ''a/b/''] \<and>
   Err (fileInfo ''a/b'' 5) = None \<and> Err (dirInfo ''a/b/'') = None \<and>
   ListObjects exampleStore '''' = [dirInfo ''a/'', dirInfo ''empty/''] \<and>
   Key (dirInfo ''a/'') \<noteq> '''' \<and> Key (dirInfo ''empty/'') \<noteq> '''' \<and>
   filter (\<lambda>obj. Key obj \<noteq> '''') (ListObjects exampleStore '''')
     = ListObjects exampleStore '''' \<and>
   fst (handleDirectory exampleStore newResponse ''a'') \<and>
   Body (snd (handleDirectory exampleStore newResponse ''a'')) =
     [Listing ''/a/''
        [\<lparr>URL = ''/./'', Name = ''..'', Size = ''-'', ModTime = 0, IsDir = True,
           Icon = DirIcon\<rparr>,
         \<lparr>URL = ''/a/b'', Name = ''b'', Size = ''5 B'', ModTime = 63800000000,
           IsDir = False, Icon = FileIcon\<rparr>,
         \<lparr>URL = ''/a/b/'', Name = ''b'', Size = ''-'', ModTime = 0, IsDir = True,
           Icon = DirIcon\<rparr>]]"
proof -
  have l: "ListObjects exampleStore (normPrefix ''a'') = [fileInfo ''a/b'' 5, dirInfo ''a/b/'']"
    by code_simp
  have a: "\<forall>obj \<in> set (ListObjects exampleStore (normPrefix ''a'')). Err obj = None"
    unfolding l by (simp add: fileInfo_def dirInfo_def zeroObjectInfo_def)
  have b: "ListObjects exampleStore (normPrefix ''a'') \<noteq> []" unfolding l by simp
  have c: "\<forall>obj \<in> set (ListObjects exampleStore ''''). Key obj \<noteq> ''''"
    by (simp add: exampleStore_def dirInfo_def zeroObjectInfo_def)
  have e: "Body newResponse @ [Listing (''/'' @ normPrefix ''a'')
             ((if normPrefix ''a'' = '''' then [] else [parentEntry (normPrefix ''a'')])
              @ map childEntry
                  (filter (\<lambda>obj. Key obj \<noteq> normPrefix ''a'')
                     [fileInfo ''a/b'' 5, dirInfo ''a/b/'']))]
           = [Listing ''/a/''
                [\<lparr>URL = ''/./'', Name = ''..'', Size = ''-'', ModTime = 0, IsDir = True,
                   Icon = DirIcon\<rparr>,
                 \<lparr>URL = ''/a/b'', Name = ''b'', Size = ''5 B'', ModTime = 63800000000,
                   IsDir = False, Icon = FileIcon\<rparr>,
                 \<lparr>URL = ''/a/b/'', Name = ''b'', Size = ''-'', ModTime = 0, IsDir = True,
                   Icon = DirIcon\<rparr>]]"
    by code_simp
  have r: "ListObjects exampleStore '''' = [dirInfo ''a/'', dirInfo ''empty/'']"
    by (simp add: exampleStore_def)
  have q: "Err (fileInfo ''a/b'' 5) = None \<and> Err (dirInfo ''a/b/'') = None \<and>
           Key (dirInfo ''a/'') \<noteq> '''' \<and> Key (dirInfo ''empty/'') \<noteq> ''''"
    by (simp add: fileInfo_def dirInfo_def zeroObjectInfo_def)
  note t = handleDirectory_entry_order [OF a b, of newResponse]
  from t c have "filter (\<lambda>obj. Key obj \<noteq> '''') (ListObjects exampleStore '''')
                   = ListObjects exampleStore ''''"
    by blast
  moreover from t have "fst (handleDirectory exampleStore newResponse ''a'')" by blast
  moreover from t have "Body (snd (handleDirectory exampleStore newResponse ''a'')) =
     [Listing ''/a/''
        [\<lparr>URL = ''/./'', Name = ''..'', Size = ''-'', ModTime = 0, IsDir = True,
           Icon = DirIcon\<rparr>,
         \<lparr>URL = ''/a/b'', Name = ''b'', Size = ''5 B'', ModTime = 63800000000,
           IsDir = False, Icon = FileIcon\<rparr>,
         \<lparr>URL = ''/a/b/'', Name = ''b'', Size = ''-'', ModTime = 0, IsDir = True,
           Icon = DirIcon\<rparr>]]"
    unfolding l e by blast
  ultimately show ?thesis using l r q by blast
qed

text \<open>
  C10. For a prefix other than the root whose form without the final slash contains no
  \<open>/\<close>, the URL of the parent entry is \<open>/./\<close>: the parent of a single segment is \<open>.\<close>. A
  rendered listing of such a prefix starts with the entry \<open>..\<close> of that URL.
\<close>

theorem parentEntry_top_level:
  assumes "normPrefix key \<noteq> ''''"
    and "CHR ''/'' \<notin> set (TrimSuffix (normPrefix key) ''/'')"
  shows "URL (parentEntry (normPrefix key)) = ''/./'' \<and>
         ((\<forall>obj \<in> set (ListObjects env (normPrefix key)). Err obj = None) \<and>
          ListObjects env (normPrefix key) \<noteq> [] \<longrightarrow>
            (\<exists>e rest. Body (snd (handleDirectory env w key)) =
                        Body w @ [Listing (''/'' @ normPrefix key) (e # rest)]
                      \<and> Name e = ''..'' \<and> URL e = ''/./''))"
proof -
  have u: "URL (parentEntry (normPrefix key)) = ''/./''"
    using assms(2) by (simp add: parentEntry_def Dir_single_segment)
  have n: "Name (parentEntry (normPrefix key)) = ''..''" by (simp add: parentEntry_def)
  show ?thesis
  proof (intro conjI impI)
    show "URL (parentEntry (normPrefix key)) = ''/./''" by (rule u)
    assume h: "(\<forall>obj \<in> set (ListObjects env (normPrefix key)). Err obj = None) \<and>
               ListObjects env (normPrefix key) \<noteq> []"
    then have "Body (snd (handleDirectory env w key)) =
                 Body w @ [Listing (''/'' @ normPrefix key)
                   (parentEntry (normPrefix key)
                    # children (normPrefix key) (ListObjects env (normPrefix key)))]"
      using handleDirectory_renders(2) [of env key w] assms(1) by simp
    with u n show "\<exists>e rest. Body (snd (handleDirectory env w key)) =
                      Body w @ [Listing (''/'' @ normPrefix key) (e # rest)]
                    \<and> Name e = ''..'' \<and> URL e = ''/./''"
      by blast
  qed
qed

theorem parentEntry_top_level_witness:
  "normPrefix ''empty'' \<noteq> '''' \<and> CHR ''/'' \<notin> set (TrimSuffix (normPrefix ''empty'') ''/'') \<and>
   URL (parentEntry (normPrefix ''empty'')) = ''/./'' \<and> normPrefix ''empty'' = ''empty/'' \<and>
   ListObjects exampleStore (normPrefix ''empty'') = [placeholderInfo ''empty/''] \<and>
   Err (placeholderInfo ''empty/'') = None \<and>
   (\<exists>e rest. Body (snd (handleDirectory exampleStore newResponse ''empty'')) =
               Body newResponse @ [Listing (''/'' @ normPrefix ''empty'') (e # rest)]
             \<and> Name e = ''..'' \<and> URL e = ''/./'')"
proof -
  have p: "normPrefix ''empty'' = ''empty/''" by code_simp
  have a: "normPrefix ''empty'' \<noteq> ''''" unfolding p by simp
  have t: "TrimSuffix ''empty/'' ''/'' = ''empty''" by code_simp
  have b: "CHR ''/'' \<notin> set (TrimSuffix (normPrefix ''empty'') ''/'')" unfolding p t by simp
  have l: "ListObjects exampleStore (normPrefix ''empty'') = [placeholderInfo ''empty/'']"
    by code_simp
  have c: "(\<forall>obj \<in> set (ListObjects exampleStore (normPrefix ''empty'')). Err obj = None) \<and>
           ListObjects exampleStore (normPrefix ''empty'') \<noteq> []"
    unfolding l by (simp add: placeholderInfo_def)
  have d: "Err (placeholderInfo ''empty/'') = None" by (simp add: placeholderInfo_def)
  from parentEntry_top_level [OF a b, of exampleStore newResponse] a b p c l d
  show ?thesis by blast
qed

text \<open>
  C1, as stated, fails: the listing of \<open>empty/\<close> in \<open>exampleStore\<close> holds the placeholder
  of the prefix and nothing else, the key is not served as a file, and \<open>handleDirectory\<close>
  reports "handled"; the request is answered with 200 and a listing whose only entry is
  \<open>..\<close>. The loop sets \<open>hasContent\<close> before it skips the item of the prefix.
\<close>

theorem placeholder_only_counterexample:
  "ListObjects exampleStore (normPrefix ''empty/'') = [placeholderInfo ''empty/''] \<and>
   Key (placeholderInfo ''empty/'') = normPrefix ''empty/'' \<and>
   \<not> fst (handleFile exampleStore newResponse ''empty/'') \<and>
   fst (handleDirectory exampleStore newResponse ''empty/'') \<and>
   Body (snd (handleDirectory exampleStore newResponse ''empty/''))
     = [Listing ''/empty/''
          [\<lparr>URL = ''/./'', Name = ''..'', Size = ''-'', ModTime = 0, IsDir = True,
             Icon = DirIcon\<rparr>]] \<and>
   Status (handler exampleStore newResponse ''/empty/'') = Some 200"
  by code_simp

text \<open>
  C1, amended. When the listing of the prefix yields no item at all, \<open>handleDirectory\<close>
  reports "not handled" and leaves the response as it was: nothing is rendered and the
  parent entry is dropped. A request whose key is not served as a file is then answered
  with 404 and the body \<open>404 Not Found\<close>.
\<close>

theorem handleDirectory_no_items:
  assumes "ListObjects env (normPrefix key) = []"
  shows "handleDirectory env w key = (False, w) \<and>
         (TrimPrefix path ''/'' = key \<and> \<not> fst (handleFile env newResponse key) \<longrightarrow>
            Status (handler env newResponse path) = Some 404 \<and>
            Body (handler env newResponse path) = [Text (''404 Not Found'' @ [CHR 0x0A])])"
proof -
  have d: "handleDirectory env w key = (False, w)" for w
    using assms by (simp add: handleDirectory_def Let_def)
  have "Status (handler env newResponse path) = Some 404 \<and>
        Body (handler env newResponse path) = [Text (''404 Not Found'' @ [CHR 0x0A])]"
    if k: "TrimPrefix path ''/'' = key" and f: "\<not> fst (handleFile env newResponse key)"
  proof -
    have m: "\<not> fst (handleDirectory env (snd (handleFile env newResponse key)) key)"
      by (simp add: d)
    show ?thesis
      using handler_both_miss [OF f m k [symmetric]] by (simp add: newResponse_def)
  qed
  with d [of w] show ?thesis by blast
qed

theorem handleDirectory_no_items_witness:
  "ListObjects exampleStore (normPrefix ''nope'') = [] \<and>
   TrimPrefix ''/nope'' ''/'' = ''nope'' \<and> \<not> fst (handleFile exampleStore newResponse ''nope'') \<and>
   handleDirectory exampleStore newResponse ''nope'' = (False, newResponse) \<and>
   Status (handler exampleStore newResponse ''/nope'') = Some 404 \<and>
   Body (handler exampleStore newResponse ''/nope'') = [Text (''404 Not Found'' @ [CHR 0x0A])]"
proof -
  have a: "ListObjects exampleStore (normPrefix ''nope'') = []" by code_simp
  have k: "TrimPrefix ''/nope'' ''/'' = ''nope''" by (simp add: TrimPrefix_def)
  have f: "\<not> fst (handleFile exampleStore newResponse ''nope'')" by code_simp
  from handleDirectory_no_items [OF a, of newResponse "''/nope''"] a k f
  show ?thesis by blast
qed

lemma handleFile_serves:
  assumes "StatObject env key = Inr info"
    and "ContentType info \<noteq> ''application/x-directory''"
    and "GetObject env key = Inr obj"
  shows "fst (handleFile env w key)"
    and "Body (snd (handleFile env w key)) = Body w @ [FileBytes (Bytes obj)]"
    and "Log (snd (handleFile env w key)) =
           Log w @ (case ReadErr obj of None \<Rightarrow> [] | Some e \<Rightarrow> [WriteFailed e])"
    and "Status w = None \<Longrightarrow> Status (snd (handleFile env w key)) = Some 200"
  using assms
  by (simp_all add: handleFile_def Let_def io_Copy_def Write_def WriteHeader_def setHeader_def
        logPrintf_def split: option.splits)




text \<open>
  C3. The handler removes one leading \<open>/\<close> from the request path. When \<open>handleFile\<close>
  reports "handled" for the key, the response is its response and does not depend on
  what the store lists; otherwise, when \<open>handleDirectory\<close> reports "handled", the response
  is its response; when both miss, the response is 404 with the body \<open>404 Not Found\<close>. A
  key \<open>a/b\<close> that is an object (its metadata and content can be fetched) is served as the
  file for the request \<open>/a/b\<close>, whatever the listing of \<open>a/b/\<close> holds.
\<close>

theorem handler_precedence:
  "TrimPrefix (''/'' @ k) ''/'' = k \<and>
   (fst (handleFile env w (TrimPrefix path ''/'')) \<longrightarrow>
      handler env w path = snd (handleFile env w (TrimPrefix path ''/'')) \<and>
      handler (env\<lparr>ListObjects := l\<rparr>) w path = handler env w path) \<and>
   (\<not> fst (handleFile env w (TrimPrefix path ''/'')) \<and>
    fst (handleDirectory env (snd (handleFile env w (TrimPrefix path ''/''))) (TrimPrefix path ''/''))
      \<longrightarrow> handler env w path =
            snd (handleDirectory env (snd (handleFile env w (TrimPrefix path ''/'')))
                   (TrimPrefix path ''/''))) \<and>
   (\<not> fst (handleFile env newResponse (TrimPrefix path ''/'')) \<and>
    \<not> fst (handleDirectory env (snd (handleFile env newResponse (TrimPrefix path ''/'')))
             (TrimPrefix path ''/''))
      \<longrightarrow> Status (handler env newResponse path) = Some 404 \<and>
          Body (handler env newResponse path) = [Text (''404 Not Found'' @ [CHR 0x0A])]) \<and>
   (StatObject env ''a/b'' = Inr info \<and> ContentType info \<noteq> ''application/x-directory'' \<and>
    GetObject env ''a/b'' = Inr obj
      \<longrightarrow> Status (handler env newResponse ''/a/b'') = Some 200 \<and>
          Body (handler env newResponse ''/a/b'') = [FileBytes (Bytes obj)])"
proof (intro conjI impI)
  show "TrimPrefix (''/'' @ k) ''/'' = k" by (simp add: TrimPrefix_def)
next
  assume f: "fst (handleFile env w (TrimPrefix path ''/''))"
  then show "handler env w path = snd (handleFile env w (TrimPrefix path ''/''))"
    by (simp add: handler_cases)
  have "handleFile (env\<lparr>ListObjects := l\<rparr>) w key = handleFile env w key" for key
    by (simp add: handleFile_def Let_def split: sum.splits)
  with f show "handler (env\<lparr>ListObjects := l\<rparr>) w path = handler env w path"
    by (simp add: handler_cases)
next
  assume "\<not> fst (handleFile env w (TrimPrefix path ''/'')) \<and>
    fst (handleDirectory env (snd (handleFile env w (TrimPrefix path ''/''))) (TrimPrefix path ''/''))"
  then show "handler env w path =
            snd (handleDirectory env (snd (handleFile env w (TrimPrefix path ''/'')))
                   (TrimPrefix path ''/''))"
    by (simp add: handler_cases)
next
  assume m: "\<not> fst (handleFile env newResponse (TrimPrefix path ''/'')) \<and>
    \<not> fst (handleDirectory env (snd (handleFile env newResponse (TrimPrefix path ''/'')))
             (TrimPrefix path ''/''))"
  show "Status (handler env newResponse path) = Some 404"
    using m by (intro handler_both_miss(1) [where key = "TrimPrefix path ''/''"])
               (simp_all add: newResponse_def)
  show "Body (handler env newResponse path) = [Text (''404 Not Found'' @ [CHR 0x0A])]"
    using m by (intro handler_both_miss(2) [where key = "TrimPrefix path ''/''"])
               (simp_all add: newResponse_def)
next
  assume s: "StatObject env ''a/b'' = Inr info \<and>
    ContentType info \<noteq> ''application/x-directory'' \<and> GetObject env ''a/b'' = Inr obj"
  have k: "TrimPrefix ''/a/b'' ''/'' = ''a/b''" by (simp add: TrimPrefix_def)
  have n: "Status newResponse = None" "Body newResponse = []"
    by (simp_all add: newResponse_def)
  have f: "fst (handleFile env newResponse ''a/b'')"
    using s by (intro handleFile_serves(1)) blast+
  have h: "handler env newResponse ''/a/b'' = snd (handleFile env newResponse ''a/b'')"
    using f by (simp add: handler_cases k)
  show "Status (handler env newResponse ''/a/b'') = Some 200"
    unfolding h using s n(1) by (intro handleFile_serves(4)) blast+
  have "Body (snd (handleFile env newResponse ''a/b''))
          = Body newResponse @ [FileBytes (Bytes obj)]"
    using s by (intro handleFile_serves(2)) blast+
  then show "Body (handler env newResponse ''/a/b'') = [FileBytes (Bytes obj)]"
    unfolding h by (simp add: n(2))
qed

theorem handler_precedence_witness:
  "StatObject exampleStore ''a/b'' = Inr (fileInfo ''a/b'' 5) \<and>
   ContentType (fileInfo ''a/b'' 5) \<noteq> ''application/x-directory'' \<and>
   GetObject exampleStore ''a/b'' = Inr \<lparr>Bytes = ''hello'', ReadErr = None\<rparr> \<and>
   ListObjects exampleStore ''a/b/'' = [fileInfo ''a/b/c'' 1536] \<and>
   Status (handler exampleStore newResponse ''/a/b'') = Some 200 \<and>
   Body (handler exampleStore newResponse ''/a/b'') = [FileBytes ''hello''] \<and>
   fst (handleFile exampleStore newResponse (TrimPrefix ''/a/b'' ''/'')) \<and>
   handler (exampleStore\<lparr>ListObjects := (\<lambda>p. [])\<rparr>) newResponse ''/a/b''
     = handler exampleStore newResponse ''/a/b'' \<and>
   \<not> fst (handleFile exampleStore newResponse (TrimPrefix ''/a/b/'' ''/'')) \<and>
   fst (handleDirectory exampleStore
          (snd (handleFile exampleStore newResponse (TrimPrefix ''/a/b/'' ''/'')))
          (TrimPrefix ''/a/b/'' ''/'')) \<and>
   handler exampleStore newResponse ''/a/b/''
     = snd (handleDirectory exampleStore
              (snd (handleFile exampleStore newResponse (TrimPrefix ''/a/b/'' ''/'')))
              (TrimPrefix ''/a/b/'' ''/'')) \<and>
   \<not> fst (handleFile exampleStore newResponse (TrimPrefix ''/nope'' ''/'')) \<and>
   \<not> fst (handleDirectory exampleStore
            (snd (handleFile exampleStore newResponse (TrimPrefix ''/nope'' ''/'')))
            (TrimPrefix ''/nope'' ''/'')) \<and>
   Status (handler exampleStore newResponse ''/nope'') = Some 404"
proof -
  have a: "StatObject exampleStore ''a/b'' = Inr (fileInfo ''a/b'' 5) \<and>
           ContentType (fileInfo ''a/b'' 5) \<noteq> ''application/x-directory'' \<and>
           GetObject exampleStore ''a/b'' = Inr \<lparr>Bytes = ''hello'', ReadErr = None\<rparr>"
    by (simp add: exampleStore_def fileInfo_def)
  have l: "ListObjects exampleStore ''a/b/'' = [fileInfo ''a/b/c'' 1536]"
    by (simp add: exampleStore_def)
  have f: "fst (handleFile exampleStore newResponse (TrimPrefix ''/a/b'' ''/''))" by code_simp
  have d: "\<not> fst (handleFile exampleStore newResponse (TrimPrefix ''/a/b/'' ''/'')) \<and>
           fst (handleDirectory exampleStore
                  (snd (handleFile exampleStore newResponse (TrimPrefix ''/a/b/'' ''/'')))
                  (TrimPrefix ''/a/b/'' ''/''))"
    by code_simp
  have n: "\<not> fst (handleFile exampleStore newResponse (TrimPrefix ''/nope'' ''/'')) \<and>
           \<not> fst (handleDirectory exampleStore
                    (snd (handleFile exampleStore newResponse (TrimPrefix ''/nope'' ''/'')))
                    (TrimPrefix ''/nope'' ''/''))"
    by code_simp
  note t1 = handler_precedence [of _ exampleStore newResponse "''/a/b''" "\<lambda>p. []"
              "fileInfo ''a/b'' 5" "\<lparr>Bytes = ''hello'', ReadErr = None\<rparr>"]
  note t2 = handler_precedence [of _ exampleStore newResponse "''/a/b/''"]
  note t3 = handler_precedence [of _ exampleStore newResponse "''/nope''"]
  from t1 a f have
    "Status (handler exampleStore newResponse ''/a/b'') = Some 200 \<and>
     Body (handler exampleStore newResponse ''/a/b'')
       = [FileBytes (Bytes \<lparr>Bytes = ''hello'', ReadErr = None\<rparr>)] \<and>
     handler (exampleStore\<lparr>ListObjects := (\<lambda>p. [])\<rparr>) newResponse ''/a/b''
       = handler exampleStore newResponse ''/a/b''"
    by blast
  moreover from t2 d have
    "handler exampleStore newResponse ''/a/b/''
       = snd (handleDirectory exampleStore
                (snd (handleFile exampleStore newResponse (TrimPrefix ''/a/b/'' ''/'')))
                (TrimPrefix ''/a/b/'' ''/''))"
    by blast
  moreover from t3 n have "Status (handler exampleStore newResponse ''/nope'') = Some 404"
    by blast
  ultimately show ?thesis using a l f d n by simp
qed

end
